theory Spec2Isabelle
  imports Main "HOL-Library.AList"
begin

section \<open>Exceptions\<close>

text \<open>
  Every exception the module interface can surface is a value. \<open>KeyError\<close> carries the
  missing key, as Python's does. \<open>ClassNotFound\<close> carries its cause, because
  \<^verbatim>\<open>__call__\<close> raises it with \<^verbatim>\<open>raise ClassNotFound() from e\<close>.
  The remaining constructors are the failures named by the specification;
  \<open>OffsetArithmeticError\<close> is the buffer builder's own failure on an offset that
  does not lie in the buffer, and \<open>Raised\<close> is any other exception a method
  handle may raise.
\<close>

datatype exn =
    KeyError string
  | ClassNotFound "exn option"
  | MethodNotFound
  | DuplicateClassError
  | DuplicateMethodError
  | MalformedBufferError
  | MalformedRecordError
  | OffsetArithmeticError
  | Raised string

section \<open>Python dictionaries\<close>

text \<open>
  A Python \<^verbatim>\<open>dict\<close> keeps its entries in insertion order and holds each key once:
  it is an association list whose keys are distinct. Assigning to a key that is present
  replaces the value in place, assigning to a new key appends the entry
  (\<^const>\<open>AList.update\<close>). Subscripting a missing key raises \<^verbatim>\<open>KeyError\<close>.
\<close>

type_synonym ('k, 'v) dict = "('k \<times> 'v) list"

definition is_dict :: "('k, 'v) dict \<Rightarrow> bool" where
  "is_dict d = distinct (map fst d)"

definition setitem :: "('k, 'v) dict \<Rightarrow> 'k \<Rightarrow> 'v \<Rightarrow> ('k, 'v) dict" where
  "setitem d k v = AList.update k v d"

definition getitem :: "(string, 'v) dict \<Rightarrow> string \<Rightarrow> exn + 'v" where
  "getitem d k = (case map_of d k of None \<Rightarrow> Inl (KeyError k) | Some v \<Rightarrow> Inr v)"

definition values_of :: "('k, 'v) dict \<Rightarrow> 'v list" where
  "values_of d = map snd d"

section \<open>Data model\<close>

text \<open>
  \<^verbatim>\<open>MethodInterface\<close>, \<^verbatim>\<open>ClassInterface\<close> and \<^verbatim>\<open>MethodRequest\<close> are declared in
  sibling modules; their fields are the ones \<^verbatim>\<open>module_interface.py\<close> reads
  (\<^verbatim>\<open>c.name\<close>, \<^verbatim>\<open>klass._methods\<close>, \<^verbatim>\<open>req.class_name\<close>, \<^verbatim>\<open>req.method_name\<close>,
  \<^verbatim>\<open>req.sinks\<close>, \<^verbatim>\<open>req.sources\<close>) and the ones the specification lists.
  The field \<open>methods\<close> is the attribute \<^verbatim>\<open>_methods\<close>. The handle of a method is
  opaque: its type is a parameter.
\<close>

record 'h MethodInterface =
  name :: string
  handle :: 'h

record 'h ClassInterface =
  name :: string
  methods :: "(string, 'h MethodInterface) dict"

record 'h ModuleInterface =
  classes :: "(string, 'h ClassInterface) dict"

record 'p MethodRequest =
  class_name :: string
  method_name :: string
  sinks :: 'p
  sources :: 'p

text \<open>
  A method handle is a callable taking the keyword arguments \<^verbatim>\<open>sinks\<close> and
  \<^verbatim>\<open>sources\<close> (in this order below). It runs in a world \<open>'w\<close> that it may change,
  and it returns a value or raises.
\<close>

type_synonym ('p, 'r, 'w) callable = "'p \<Rightarrow> 'p \<Rightarrow> 'w \<Rightarrow> (exn + 'r) \<times> 'w"

section \<open>Construction\<close>

text \<open>
  \<^verbatim>\<open>ModuleInterface.__init__\<close> receives either a plain sequence of class interfaces or
  an object with a \<^verbatim>\<open>values\<close> attribute, that is, a mapping:
  \<^verbatim>\<open>self.classes = {c.name: c for c in classes} if not hasattr(classes, 'values') else classes\<close>.
  The comprehension assigns the entries one after the other into an empty dictionary.
  The constructor has no failing branch; its result is a sum so that statements about
  failure can be written down.
\<close>

datatype 'h classes_arg =
    Sequence "'h ClassInterface list"
  | Keyed "(string, 'h ClassInterface) dict"

definition comprehension :: "'h ClassInterface list \<Rightarrow> (string, 'h ClassInterface) dict" where
  "comprehension cs = foldl (\<lambda>d c. setitem d (ClassInterface.name c) c) [] cs"

definition init :: "'h classes_arg \<Rightarrow> exn + 'h ModuleInterface" where
  "init arg =
     (case arg of
        Sequence cs \<Rightarrow> Inr \<lparr>classes = comprehension cs\<rparr>
      | Keyed d \<Rightarrow> Inr \<lparr>classes = d\<rparr>)"

section \<open>Dispatch\<close>

text \<open>
  Modelled from the spec: \<^verbatim>\<open>ClassInterface.get_method\<close>, which lives in
  \<^verbatim>\<open>class_interface.py\<close>: ``\<^verbatim>\<open>get_method(name) -> MethodInterface\<close> fails with
  \<^verbatim>\<open>MethodNotFound\<close> when absent''.
\<close>

definition get_method :: "'h ClassInterface \<Rightarrow> string \<Rightarrow> exn + 'h MethodInterface" where
  "get_method klass n =
     (case map_of (methods klass) n of None \<Rightarrow> Inl MethodNotFound | Some m \<Rightarrow> Inr m)"

text \<open>
  Modelled from the spec: calling a \<^verbatim>\<open>MethodInterface\<close>, which lives in a sibling
  module: dispatch ``invokes the resolved method's handle with keyword-style arguments
  \<^verbatim>\<open>sinks=request.sinks, sources=request.sources\<close> and returns its result unchanged''.
\<close>

definition invoke ::
  "('p, 'r, 'w) callable MethodInterface \<Rightarrow> 'p \<Rightarrow> 'p \<Rightarrow> 'w \<Rightarrow> (exn + 'r) \<times> 'w" where
  "invoke method si so w = MethodInterface.handle method si so w"

text \<open>
  \<^verbatim>\<open>ModuleInterface.__call__\<close>. The result is the outcome, the instance after the call and
  the world after the call. Only \<^verbatim>\<open>KeyError\<close> is caught around the class lookup.
\<close>

definition call ::
  "('p, 'r, 'w) callable ModuleInterface \<Rightarrow> 'p MethodRequest \<Rightarrow> 'w \<Rightarrow>
     (exn + 'r) \<times> ('p, 'r, 'w) callable ModuleInterface \<times> 'w" where
  "call self req w =
     (case getitem (classes self) (class_name req) of
        Inl (KeyError k) \<Rightarrow> (Inl (ClassNotFound (Some (KeyError k))), self, w)
      | Inl e \<Rightarrow> (Inl e, self, w)
      | Inr klass \<Rightarrow>
          (case get_method klass (method_name req) of
             Inl e \<Rightarrow> (Inl e, self, w)
           | Inr method \<Rightarrow>
               (case invoke method (sinks req) (sources req) w of
                  (r, w') \<Rightarrow> (r, self, w'))))"

text \<open>
  \<^verbatim>\<open>ModuleInterface.handle\<close>: two plain subscriptions, nothing caught, nothing invoked.
\<close>

definition handle ::
  "'h ModuleInterface \<Rightarrow> 'p MethodRequest \<Rightarrow> (exn + 'h MethodInterface) \<times> 'h ModuleInterface" where
  "handle self req =
     (case getitem (classes self) (class_name req) of
        Inl e \<Rightarrow> (Inl e, self)
      | Inr klass \<Rightarrow>
          (case getitem (methods klass) (method_name req) of
             Inl e \<Rightarrow> (Inl e, self)
           | Inr method \<Rightarrow> (Inr method, self)))"

section \<open>The buffer and its builder\<close>

text \<open>
  Modelled from the spec: the Binary Codec Adapter, an external library together with
  generated accessor modules, none of them part of \<^verbatim>\<open>module_interface.py\<close>. The spec
  fixes a ``flat, offset-based binary convention'' with ``forward-pointing offsets'',
  vectors that ``preserve insertion order'', ``start/add-field/end'' construction and
  ``read-field-at-offset'' access, and three kinds of records: the root record with one
  field (a vector of offsets to class records) at slot 4, the class record with a name
  and a vector of offsets to method records, the method record with a name and a handle.

  A buffer is the sequence of its objects, addressed by position. A reference stored in
  an object is the distance from that object forward to its target. A table maps field
  slots to cells; the first field of a table has slot 4, the next one slot 6.
\<close>

datatype 'h cell = Ref nat | Opaque 'h

datatype 'h obj =
    Root nat
  | StringObj string
  | VectorObj "nat list"
  | TableObj "(nat \<times> 'h cell) list"

type_synonym 'h buffer = "'h obj list"

text \<open>
  The builder writes from the back of the buffer to the front: the head of \<open>written\<close>
  is the object written last, and the offset of an object is its distance from the end of
  the buffer. \<open>elems\<close> and \<open>slots\<close> hold the vector and the table under construction.
\<close>

record 'h Builder =
  written :: "'h buffer"
  elems :: "nat list"
  slots :: "(nat \<times> 'h cell) list"

definition Offset :: "'h Builder \<Rightarrow> nat" where
  "Offset b = length (written b)"

definition CreateString :: "'h Builder \<Rightarrow> string \<Rightarrow> nat \<times> 'h Builder" where
  "CreateString b s = (Offset b + 1, b\<lparr>written := StringObj s # written b\<rparr>)"

definition StartVector :: "'h Builder \<Rightarrow> nat \<Rightarrow> 'h Builder" where
  "StartVector b n = b\<lparr>elems := []\<rparr>"

definition PrependUOffsetTRelative :: "'h Builder \<Rightarrow> nat \<Rightarrow> exn + 'h Builder" where
  "PrependUOffsetTRelative b off =
     (if off \<le> Offset b then Inr (b\<lparr>elems := (Offset b + 1 - off) # elems b\<rparr>)
      else Inl OffsetArithmeticError)"

definition EndVector :: "'h Builder \<Rightarrow> nat \<times> 'h Builder" where
  "EndVector b = (Offset b + 1, b\<lparr>written := VectorObj (elems b) # written b, elems := []\<rparr>)"

definition StartObject :: "'h Builder \<Rightarrow> 'h Builder" where
  "StartObject b = b\<lparr>slots := []\<rparr>"

definition voffset :: "nat \<Rightarrow> nat" where
  "voffset slot = 4 + 2 * slot"

text \<open>An offset field that holds the default 0 is left out of the table.\<close>

definition PrependUOffsetTRelativeSlot :: "'h Builder \<Rightarrow> nat \<Rightarrow> nat \<Rightarrow> exn + 'h Builder" where
  "PrependUOffsetTRelativeSlot b slot off =
     (if off = 0 then Inr b
      else if off \<le> Offset b
        then Inr (b\<lparr>slots := slots b @ [(voffset slot, Ref (Offset b + 1 - off))]\<rparr>)
      else Inl OffsetArithmeticError)"

definition PrependOpaqueSlot :: "'h Builder \<Rightarrow> nat \<Rightarrow> 'h \<Rightarrow> 'h Builder" where
  "PrependOpaqueSlot b slot h = b\<lparr>slots := slots b @ [(voffset slot, Opaque h)]\<rparr>"

definition EndObject :: "'h Builder \<Rightarrow> nat \<times> 'h Builder" where
  "EndObject b = (Offset b + 1, b\<lparr>written := TableObj (slots b) # written b, slots := []\<rparr>)"



text \<open>
  Reading. A table accessor is a buffer and the position of a table in it. A read that
  leaves the buffer, or that finds an object of another kind, finds nothing.
\<close>

record 'h Table =
  Bytes :: "'h buffer"
  Pos :: nat

definition obj_at :: "'h buffer \<Rightarrow> nat \<Rightarrow> 'h obj option" where
  "obj_at buf p = (if p < length buf then Some (buf ! p) else None)"

definition field :: "'h Table \<Rightarrow> nat \<Rightarrow> 'h cell option" where
  "field tab vo =
     (case obj_at (Bytes tab) (Pos tab) of
        Some (TableObj fs) \<Rightarrow> map_of fs vo
      | _ \<Rightarrow> None)"

definition vector :: "'h Table \<Rightarrow> nat \<Rightarrow> (nat \<times> nat list) option" where
  "vector tab vo =
     (case field tab vo of
        Some (Ref r) \<Rightarrow>
          (case obj_at (Bytes tab) (Pos tab + r) of
             Some (VectorObj rs) \<Rightarrow> Some (Pos tab + r, rs)
           | _ \<Rightarrow> None)
      | _ \<Rightarrow> None)"

definition get_string :: "'h Table \<Rightarrow> nat \<Rightarrow> exn + string" where
  "get_string tab vo =
     (case field tab vo of
        Some (Ref r) \<Rightarrow>
          (case obj_at (Bytes tab) (Pos tab + r) of
             Some (StringObj s) \<Rightarrow> Inr s
           | _ \<Rightarrow> Inl MalformedRecordError)
      | _ \<Rightarrow> Inl MalformedRecordError)"

definition get_opaque :: "'h Table \<Rightarrow> nat \<Rightarrow> exn + 'h" where
  "get_opaque tab vo =
     (case field tab vo of
        Some (Opaque h) \<Rightarrow> Inr h
      | _ \<Rightarrow> Inl MalformedRecordError)"

definition vector_len :: "'h Table \<Rightarrow> nat \<Rightarrow> exn + nat" where
  "vector_len tab vo =
     (case vector tab vo of
        None \<Rightarrow> Inl MalformedBufferError
      | Some (pv, rs) \<Rightarrow> Inr (length rs))"

text \<open>
  Modelled from the spec: \<^verbatim>\<open>FlatbufferMixin.get_root_as\<close> and
  \<^verbatim>\<open>FlatbufferMixin._get_resource\<close> (in \<^verbatim>\<open>base.py\<close>). The first ``locates the root
  record'' from the root-offset prefix stored at the given offset and ``fails with
  \<^verbatim>\<open>MalformedBufferError\<close> if the buffer's root cannot be located''. The second reads
  element \<open>j\<close> of the vector of offsets held by the field at the given slot and returns
  the accessor of the record it points to; a missing field is a
  \<^verbatim>\<open>MalformedBufferError\<close>, a target that is not a record a \<^verbatim>\<open>MalformedRecordError\<close>.
  Its third argument, the accessor class, has no counterpart here: all accessors have
  the type \<open>Table\<close>.
\<close>

definition get_root_as :: "'h buffer \<Rightarrow> nat \<Rightarrow> exn + 'h Table" where
  "get_root_as buf offset =
     (case obj_at buf offset of
        Some (Root n) \<Rightarrow>
          (case obj_at buf (n + offset) of
             Some (TableObj fs) \<Rightarrow> Inr \<lparr>Bytes = buf, Pos = n + offset\<rparr>
           | _ \<Rightarrow> Inl MalformedBufferError)
      | _ \<Rightarrow> Inl MalformedBufferError)"

definition get_resource :: "'h Table \<Rightarrow> nat \<Rightarrow> nat \<Rightarrow> exn + 'h Table" where
  "get_resource tab j vo =
     (case vector tab vo of
        None \<Rightarrow> Inl MalformedBufferError
      | Some (pv, rs) \<Rightarrow>
          if j < length rs then
            (case obj_at (Bytes tab) (pv + rs ! j) of
               Some (TableObj fs) \<Rightarrow> Inr \<lparr>Bytes = Bytes tab, Pos = pv + rs ! j\<rparr>
             | _ \<Rightarrow> Inl MalformedRecordError)
          else Inl MalformedBufferError)"

section \<open>Dictionaries of records in a buffer\<close>

text \<open>
  Modelled from the spec: \<^verbatim>\<open>serialize_dict\<close> and \<^verbatim>\<open>deserialize_to_dict\<close> (in
  \<^verbatim>\<open>base.py\<close>). Encoding writes ``a vector field built from'' the mapping, ``values
  only; iteration order = construction/insertion order'': every value is serialised in
  turn, in the insertion order of the mapping; then the vector of their offsets is started
  with the given vector builder and the offsets are prepended to it one after the other,
  in that same order. Prepending fills the vector from its back, so the finished vector
  lists the records from the last to the first. Decoding ``reads the vector, constructs each'' element with the
  given constructor from the accessor the getter returns for its index, ``and builds the
  name\<open>\<rightarrow>\<close>value mapping'', failing ``on name collision''. The failure is
  \<^verbatim>\<open>DuplicateClassError\<close> for classes and \<^verbatim>\<open>DuplicateMethodError\<close> for methods, so it
  is an argument here, as is the function that reads the attribute \<^verbatim>\<open>name\<close>.
\<close>

fun serialize_each ::
  "('a \<Rightarrow> 'h Builder \<Rightarrow> exn + nat \<times> 'h Builder) \<Rightarrow> 'a list \<Rightarrow> 'h Builder \<Rightarrow>
     exn + nat list \<times> 'h Builder" where
  "serialize_each ser [] b = Inr ([], b)"
| "serialize_each ser (x # xs) b =
     (case ser x b of
        Inl e \<Rightarrow> Inl e
      | Inr (off, b1) \<Rightarrow>
          (case serialize_each ser xs b1 of
             Inl e \<Rightarrow> Inl e
           | Inr (offs, b2) \<Rightarrow> Inr (off # offs, b2)))"

fun prepend_each :: "nat list \<Rightarrow> 'h Builder \<Rightarrow> exn + 'h Builder" where
  "prepend_each [] b = Inr b"
| "prepend_each (off # offs) b =
     (case PrependUOffsetTRelative b off of
        Inl e \<Rightarrow> Inl e
      | Inr b1 \<Rightarrow> prepend_each offs b1)"

definition serialize_dict ::
  "('a \<Rightarrow> 'h Builder \<Rightarrow> exn + nat \<times> 'h Builder) \<Rightarrow> 'h Builder \<Rightarrow>
     ('h Builder \<Rightarrow> nat \<Rightarrow> 'h Builder) \<Rightarrow> (string, 'a) dict \<Rightarrow> exn + nat \<times> 'h Builder" where
  "serialize_dict ser builder vector_builder xs =
     (case serialize_each ser (values_of xs) builder of
        Inl e \<Rightarrow> Inl e
      | Inr (offs, b1) \<Rightarrow>
          (case prepend_each offs (vector_builder b1 (length offs)) of
             Inl e \<Rightarrow> Inl e
           | Inr b2 \<Rightarrow> Inr (EndVector b2)))"

fun deserialize_loop ::
  "exn \<Rightarrow> ('a \<Rightarrow> string) \<Rightarrow> ('t \<Rightarrow> exn + 'a) \<Rightarrow> (nat \<Rightarrow> exn + 't) \<Rightarrow> nat list \<Rightarrow>
     (string, 'a) dict \<Rightarrow> exn + (string, 'a) dict" where
  "deserialize_loop dup nm constructor getter [] xs = Inr xs"
| "deserialize_loop dup nm constructor getter (i # is) xs =
     (case getter i of
        Inl e \<Rightarrow> Inl e
      | Inr t \<Rightarrow>
          (case constructor t of
             Inl e \<Rightarrow> Inl e
           | Inr x \<Rightarrow>
               if nm x \<in> set (map fst xs) then Inl dup
               else deserialize_loop dup nm constructor getter is (setitem xs (nm x) x)))"

definition deserialize_to_dict ::
  "exn \<Rightarrow> ('a \<Rightarrow> string) \<Rightarrow> ('t \<Rightarrow> exn + 'a) \<Rightarrow> (nat \<Rightarrow> exn + 't) \<Rightarrow> nat \<Rightarrow>
     exn + (string, 'a) dict" where
  "deserialize_to_dict dup nm constructor getter n =
     deserialize_loop dup nm constructor getter [0..<n] []"

section \<open>Method and class records\<close>

text \<open>
  Modelled from the spec: the codec of \<^verbatim>\<open>MethodInterface\<close> (section 4.1):
  ``\<^verbatim>\<open>decode\<close> reads a name field and a handle reference from a positional record;
  \<^verbatim>\<open>encode\<close> writes the same two fields and returns the buffer offset of the
  constructed record. Fails with \<^verbatim>\<open>MalformedRecordError\<close> if the name field is
  absent/unreadable.''
\<close>

definition MethodInterface_serialize ::
  "'h MethodInterface \<Rightarrow> 'h Builder \<Rightarrow> exn + nat \<times> 'h Builder" where
  "MethodInterface_serialize m builder =
     (case CreateString builder (MethodInterface.name m) of
        (name_off, b1) \<Rightarrow>
          (case PrependUOffsetTRelativeSlot (StartObject b1) 0 name_off of
             Inl e \<Rightarrow> Inl e
           | Inr b2 \<Rightarrow> Inr (EndObject (PrependOpaqueSlot b2 1 (MethodInterface.handle m)))))"

definition MethodInterface_from_interface :: "'h Table \<Rightarrow> exn + 'h MethodInterface" where
  "MethodInterface_from_interface interface =
     (case get_string interface (voffset 0) of
        Inl e \<Rightarrow> Inl e
      | Inr n \<Rightarrow>
          (case get_opaque interface (voffset 1) of
             Inl e \<Rightarrow> Inl e
           | Inr h \<Rightarrow> Inr \<lparr>MethodInterface.name = n, handle = h\<rparr>))"

text \<open>
  Modelled from the spec: the codec of \<^verbatim>\<open>ClassInterface\<close> (section 4.2):
  ``\<^verbatim>\<open>decode\<close> reads a name and a vector of method records, constructing a
  MethodInterface per element and building the name\<open>\<rightarrow>\<close>MethodInterface mapping; fails
  with \<^verbatim>\<open>DuplicateMethodError\<close> if two decoded methods share a name. \<^verbatim>\<open>encode\<close>
  writes a name field and a vector field built from its \<^verbatim>\<open>methods\<close> mapping.''
\<close>

definition ClassInterface_serialize ::
  "'h ClassInterface \<Rightarrow> 'h Builder \<Rightarrow> exn + nat \<times> 'h Builder" where
  "ClassInterface_serialize c builder =
     (case CreateString builder (ClassInterface.name c) of
        (name_off, b1) \<Rightarrow>
          (case serialize_dict MethodInterface_serialize b1 StartVector (methods c) of
             Inl e \<Rightarrow> Inl e
           | Inr (methods_off, b2) \<Rightarrow>
               (case PrependUOffsetTRelativeSlot (StartObject b2) 0 name_off of
                  Inl e \<Rightarrow> Inl e
                | Inr b3 \<Rightarrow>
                    (case PrependUOffsetTRelativeSlot b3 1 methods_off of
                       Inl e \<Rightarrow> Inl e
                     | Inr b4 \<Rightarrow> Inr (EndObject b4)))))"

definition ClassInterface_from_interface :: "'h Table \<Rightarrow> exn + 'h ClassInterface" where
  "ClassInterface_from_interface interface =
     (case get_string interface (voffset 0) of
        Inl e \<Rightarrow> Inl e
      | Inr n \<Rightarrow>
          (case vector_len interface (voffset 1) of
             Inl e \<Rightarrow> Inl e
           | Inr len \<Rightarrow>
               (case deserialize_to_dict DuplicateMethodError MethodInterface.name
                       MethodInterface_from_interface
                       (\<lambda>j. get_resource interface j (voffset 1)) len of
                  Inl e \<Rightarrow> Inl e
                | Inr ms \<Rightarrow> Inr \<lparr>ClassInterface.name = n, methods = ms\<rparr>)))"

section \<open>The module record\<close>

text \<open>
  Modelled from the spec: the generated module \<^verbatim>\<open>_ModuleInterface\<close> (imported as
  \<^verbatim>\<open>mi\<close>), which is not among the sources: the ``root record'' has ``one field,
  \<^verbatim>\<open>classes\<close>, a vector of offsets to ClassInterface records''. It is the first field
  of the record.
\<close>

definition StartClassesVector :: "'h Builder \<Rightarrow> nat \<Rightarrow> 'h Builder" where
  "StartClassesVector builder n = StartVector builder n"

definition Start :: "'h Builder \<Rightarrow> 'h Builder" where
  "Start builder = StartObject builder"

definition AddClasses :: "'h Builder \<Rightarrow> nat \<Rightarrow> exn + 'h Builder" where
  "AddClasses builder classes_off = PrependUOffsetTRelativeSlot builder 0 classes_off"

definition End :: "'h Builder \<Rightarrow> nat \<times> 'h Builder" where
  "End builder = EndObject builder"

definition ClassesLength :: "'h Table \<Rightarrow> exn + nat" where
  "ClassesLength interface = vector_len interface (voffset 0)"

text \<open>
  The class \<^verbatim>\<open>_ModuleInterface\<close> of \<^verbatim>\<open>module_interface.py\<close>: the constant
  \<^verbatim>\<open>CLASS_OFFSET\<close>, \<^verbatim>\<open>GetRootAs\<close> and \<^verbatim>\<open>Classes\<close>.
\<close>

definition CLASS_OFFSET :: nat where
  "CLASS_OFFSET = 4"

definition GetRootAs :: "'h buffer \<Rightarrow> nat \<Rightarrow> exn + 'h Table" where
  "GetRootAs buf offset = get_root_as buf offset"

definition Classes :: "'h Table \<Rightarrow> nat \<Rightarrow> exn + 'h Table" where
  "Classes self j = get_resource self j CLASS_OFFSET"

text \<open>
  \<^verbatim>\<open>ModuleInterface.deserialize\<close> and \<^verbatim>\<open>ModuleInterface.serialize\<close>. The arguments of
  \<^verbatim>\<open>deserialize_to_dict\<close> are evaluated before the call, so a failure of
  \<^verbatim>\<open>ClassesLength\<close> comes first. Nothing is caught in either function.
  \<^verbatim>\<open>serialize\<close> returns the outcome (the offset of the root record and the builder after
  the call) together with the instance after the call.
\<close>

definition deserialize :: "'h buffer \<Rightarrow> exn + 'h ModuleInterface" where
  "deserialize buffer =
     (case GetRootAs buffer 0 of
        Inl e \<Rightarrow> Inl e
      | Inr interface \<Rightarrow>
          (case ClassesLength interface of
             Inl e \<Rightarrow> Inl e
           | Inr n \<Rightarrow>
               (case deserialize_to_dict DuplicateClassError ClassInterface.name
                       ClassInterface_from_interface (Classes interface) n of
                  Inl e \<Rightarrow> Inl e
                | Inr classes' \<Rightarrow> init (Keyed classes'))))"

definition serialize ::
  "'h ModuleInterface \<Rightarrow> 'h Builder \<Rightarrow> (exn + nat \<times> 'h Builder) \<times> 'h ModuleInterface" where
  "serialize self builder =
     (case serialize_dict ClassInterface_serialize builder StartClassesVector (classes self) of
        Inl e \<Rightarrow> (Inl e, self)
      | Inr (class_off, b1) \<Rightarrow>
          (case AddClasses (Start b1) class_off of
             Inl e \<Rightarrow> (Inl e, self)
           | Inr b2 \<Rightarrow> (Inr (End b2), self)))"


section \<open>Well-formed registries\<close>



section \<open>The registry invariant\<close>

text \<open>
  Every key is the name of its value, and no two values share a name.
\<close>

definition keyed_by_name :: "'h ModuleInterface \<Rightarrow> bool" where
  "keyed_by_name m \<longleftrightarrow>
     list_all (\<lambda>(k, c). k = ClassInterface.name c) (classes m) \<and>
     distinct (map (\<lambda>(k, c). ClassInterface.name c) (classes m))"

section \<open>Example registries\<close>

text \<open>
  A registry with the class \<open>Shape\<close> and its method \<open>area\<close>. Port bindings are
  association lists, results are integers, and the world counts the invocations of the
  handle.
\<close>

type_synonym ports = "(string \<times> int) list"

definition area_handle :: "(ports, int, nat) callable" where
  "area_handle si so w =
     (case map_of so ''radius'' of
        Some r \<Rightarrow> (Inr (3 * r * r), Suc w)
      | None \<Rightarrow> (Inl (Raised ''radius''), Suc w))"

definition area_method :: "(ports, int, nat) callable MethodInterface" where
  "area_method = \<lparr>MethodInterface.name = ''area'', handle = area_handle\<rparr>"

definition shape_class :: "(ports, int, nat) callable ClassInterface" where
  "shape_class = \<lparr>ClassInterface.name = ''Shape'', methods = [(''area'', area_method)]\<rparr>"

definition shape_registry :: "(ports, int, nat) callable ModuleInterface" where
  "shape_registry = \<lparr>classes = [(''Shape'', shape_class)]\<rparr>"

definition request :: "string \<Rightarrow> string \<Rightarrow> ports MethodRequest" where
  "request c m = \<lparr>class_name = c, method_name = m, sinks = [], sources = [(''radius'', 5)]\<rparr>"

text \<open>Two different class interfaces that share the name \<open>Foo\<close>.\<close>

definition foo_a :: "nat ClassInterface" where
  "foo_a = \<lparr>ClassInterface.name = ''Foo'', methods = []\<rparr>"

definition foo_b :: "nat ClassInterface" where
  "foo_b = \<lparr>ClassInterface.name = ''Foo'',
            methods = [(''bar'', \<lparr>MethodInterface.name = ''bar'', handle = 1\<rparr>)]\<rparr>"

text \<open>A mapping whose only key is not the name of its value.\<close>

definition mislabelled :: "(string, nat ClassInterface) dict" where
  "mislabelled = [(''A'', \<lparr>ClassInterface.name = ''B'', methods = []\<rparr>)]"

text \<open>A buffer holding the class \<open>Foo\<close> without methods.\<close>

definition foo_buffer :: "nat buffer" where
  "foo_buffer =
     [Root 1, TableObj [(4, Ref 1)], VectorObj [1],
      TableObj [(4, Ref 2), (6, Ref 1)], VectorObj [], StringObj ''Foo'']"




section \<open>The layout of an encoded registry\<close>













section \<open>Dictionary lookups\<close>

lemma map_of_absent: "k \<notin> fst ` set d \<Longrightarrow> map_of d k = None"
  by (simp add: map_of_eq_None_iff)

lemma getitem_Some: "map_of d k = Some v \<Longrightarrow> getitem d k = Inr v"
  by (simp add: getitem_def)

lemma getitem_None: "k \<notin> fst ` set d \<Longrightarrow> getitem d k = Inl (KeyError k)"
  by (simp add: getitem_def map_of_absent)

lemma update_fresh: "k \<notin> fst ` set d \<Longrightarrow> AList.update k v d = d @ [(k, v)]"
  by (induction d) auto

lemma update_keeps_names:
  "list_all (\<lambda>(k, x). k = nm x) d \<Longrightarrow> list_all (\<lambda>(k, x). k = nm x) (AList.update (nm v) v d)"
  by (induction d) auto

lemma keys_are_names:
  "list_all (\<lambda>(k, x). k = nm x) xs \<Longrightarrow> map (\<lambda>(k, x). nm x) xs = map fst xs"
  by (induction xs) auto

lemmas example_defs =
  area_handle_def area_method_def shape_class_def shape_registry_def request_def

section \<open>Dispatch\<close>

text \<open>
  C2. When the class name of the request is a key of \<open>classes\<close> and the method name
  resolves on that class, dispatch invokes the handle of the resolved method with the
  sinks and the sources of the request, in the world dispatch was called in. The outcome
  of dispatch is the outcome of the handle, a value or a failure alike, the world after
  dispatch is the world the handle left, and the instance is the same.
\<close>

theorem call_invokes_handle:
  assumes "map_of (classes self) (class_name req) = Some klass"
    and "map_of (methods klass) (method_name req) = Some method"
  shows "call self req w =
    (fst (MethodInterface.handle method (sinks req) (sources req) w), self,
     snd (MethodInterface.handle method (sinks req) (sources req) w))"
  using assms
  by (simp add: call_def getitem_Some get_method_def invoke_def split: prod.splits)

theorem call_invokes_handle_witness:
  "call shape_registry (request ''Shape'' ''area'') 0 = (Inr 75, shape_registry, 1) \<and>
   call shape_registry ((request ''Shape'' ''area'')\<lparr>sources := []\<rparr>) 0 =
     (Inl (Raised ''radius''), shape_registry, 1)"
  using call_invokes_handle [of shape_registry "request ''Shape'' ''area''" shape_class area_method 0]
    call_invokes_handle [of shape_registry "(request ''Shape'' ''area'')\<lparr>sources := []\<rparr>"
      shape_class area_method 0]
  by (simp add: example_defs)

text \<open>
  C4. When the class name of the request is not a key of \<open>classes\<close>, dispatch fails with
  \<open>ClassNotFound\<close>, raised from the \<open>KeyError\<close> of the lookup, and leaves the world as
  it was: whatever the handles of the registry do to the world, none of them has run.
\<close>

theorem call_class_not_found:
  assumes "class_name req \<notin> fst ` set (classes self)"
  shows "call self req w = (Inl (ClassNotFound (Some (KeyError (class_name req)))), self, w)"
  using assms by (simp add: call_def getitem_None)

theorem call_class_not_found_witness:
  "call shape_registry (request ''Missing'' ''x'') 0 =
     (Inl (ClassNotFound (Some (KeyError ''Missing''))), shape_registry, 0)"
  using call_class_not_found [of "request ''Missing'' ''x''" shape_registry 0]
  by (simp add: example_defs)

text \<open>
  C5. When the class name of the request resolves and the method name is absent from the
  resolved class, dispatch fails with \<open>MethodNotFound\<close> and leaves the world as it was:
  no handle has run.
\<close>

theorem call_method_not_found:
  assumes "map_of (classes self) (class_name req) = Some klass"
    and "method_name req \<notin> fst ` set (methods klass)"
  shows "call self req w = (Inl MethodNotFound, self, w)"
  using assms by (simp add: call_def getitem_Some get_method_def map_of_absent)

theorem call_method_not_found_witness:
  "call shape_registry (request ''Shape'' ''perimeter'') 0 =
     (Inl MethodNotFound, shape_registry, 0)"
  using call_method_not_found [of shape_registry "request ''Shape'' ''perimeter''" shape_class 0]
  by (simp add: example_defs)

text \<open>
  C9. Dispatch and \<open>serialize\<close> leave the \<open>classes\<close> mapping of the instance as it was
  before the call, whether they return or fail; so does \<open>handle\<close>.
\<close>

theorem operations_keep_classes:
  "classes (fst (snd (call self req w))) = classes self \<and>
   classes (snd (serialize self builder)) = classes self \<and>
   classes (snd (handle self req)) = classes self"
  by (simp add: call_def serialize_def handle_def split: sum.splits exn.splits prod.splits)

text \<open>
  C10. \<open>handle\<close> resolves the class name and the method name of the request as dispatch
  does, and returns the resolved method without invoking it: it is given no world to run
  a handle in, and where it returns a method, dispatch is the invocation of that method's
  handle. Where the class name is absent \<open>handle\<close> fails with the \<open>KeyError\<close> of the
  class name and dispatch with \<open>ClassNotFound\<close>; where the method name is absent
  \<open>handle\<close> fails with the \<open>KeyError\<close> of the method name and dispatch with
  \<open>MethodNotFound\<close>.
\<close>

theorem handle_raw_key_error:
  "(class_name req \<notin> fst ` set (classes self) \<longrightarrow>
      handle self req = (Inl (KeyError (class_name req)), self) \<and>
      fst (call self req w) = Inl (ClassNotFound (Some (KeyError (class_name req))))) \<and>
   (\<forall>klass. map_of (classes self) (class_name req) = Some klass \<and>
      method_name req \<notin> fst ` set (methods klass) \<longrightarrow>
      handle self req = (Inl (KeyError (method_name req)), self) \<and>
      fst (call self req w) = Inl MethodNotFound) \<and>
   (\<forall>klass method. map_of (classes self) (class_name req) = Some klass \<and>
      map_of (methods klass) (method_name req) = Some method \<longrightarrow>
      handle self req = (Inr method, self) \<and>
      call self req w =
        (fst (MethodInterface.handle method (sinks req) (sources req) w), self,
         snd (MethodInterface.handle method (sinks req) (sources req) w)))"
  by (auto simp: handle_def call_def getitem_None getitem_Some get_method_def invoke_def
      map_of_absent split: prod.splits)

theorem handle_raw_key_error_witness:
  "handle shape_registry (request ''Missing'' ''x'') =
     (Inl (KeyError ''Missing''), shape_registry) \<and>
   handle shape_registry (request ''Shape'' ''perimeter'') =
     (Inl (KeyError ''perimeter''), shape_registry) \<and>
   handle shape_registry (request ''Shape'' ''area'') = (Inr area_method, shape_registry) \<and>
   call shape_registry (request ''Shape'' ''area'') 0 = (Inr 75, shape_registry, 1)"
  using handle_raw_key_error [of "request ''Missing'' ''x''" shape_registry 0]
    handle_raw_key_error [of "request ''Shape'' ''perimeter''" shape_registry 0]
    handle_raw_key_error [of "request ''Shape'' ''area''" shape_registry 0]
  by (simp add: example_defs)

section \<open>Construction from a sequence\<close>

lemma comprehension_snoc:
  "comprehension (cs @ [c]) = AList.update (ClassInterface.name c) c (comprehension cs)"
  by (simp add: comprehension_def setitem_def)

lemma comprehension_keys:
  "map fst (comprehension cs) = rev (remdups (rev (map ClassInterface.name cs)))"
proof (induction cs rule: rev_induct)
  case Nil
  show ?case by (simp add: comprehension_def)
next
  case (snoc c cs)
  have "fst ` set (comprehension cs) = ClassInterface.name ` set cs"
    using snoc.IH [THEN arg_cong, of set] by (simp add: image_image)
  then show ?case
    using snoc.IH by (simp add: comprehension_snoc update_keys)
qed

lemma comprehension_lookup:
  "c \<in> set cs \<Longrightarrow>
   map_of (comprehension cs) (ClassInterface.name c) =
     Some (last (filter (\<lambda>x. ClassInterface.name x = ClassInterface.name c) cs))"
proof (induction cs rule: rev_induct)
  case Nil
  then show ?case by simp
next
  case (snoc y cs)
  show ?case
  proof (cases "ClassInterface.name y = ClassInterface.name c")
    case True
    then show ?thesis by (simp add: comprehension_snoc update_conv)
  next
    case False
    with snoc.prems have "c \<in> set cs" by auto
    with snoc.IH False show ?thesis
      by (simp add: comprehension_snoc update_conv)
  qed
qed

lemma comprehension_keyed:
  "list_all (\<lambda>(k, c). k = ClassInterface.name c) (comprehension cs) \<and>
   distinct (map fst (comprehension cs))"
proof (induction cs rule: rev_induct)
  case Nil
  show ?case by (simp add: comprehension_def)
next
  case (snoc c cs)
  then show ?case
    by (simp add: comprehension_snoc update_keeps_names distinct_update)
qed

text \<open>
  C3, as the code has it. Constructing a module interface from a plain sequence of class
  interfaces never fails. The keys of the result are the names of the sequence, each
  once, in the order of their first occurrence, and every name maps to the last element
  of the sequence that bears it: an earlier element of the same name is replaced.
\<close>

theorem init_sequence_last_wins:
  "\<exists>m. init (Sequence cs) = Inr m \<and>
       map fst (classes m) = rev (remdups (rev (map ClassInterface.name cs))) \<and>
       (\<forall>c \<in> set cs. map_of (classes m) (ClassInterface.name c) =
          Some (last (filter (\<lambda>x. ClassInterface.name x = ClassInterface.name c) cs)))"
  by (simp add: init_def comprehension_keys comprehension_lookup)

theorem init_sequence_last_wins_witness:
  "\<exists>m. init (Sequence [foo_a, foo_b]) = Inr m \<and> map fst (classes m) = [''Foo''] \<and>
       map_of (classes m) ''Foo'' = Some foo_b"
  using init_sequence_last_wins [of "[foo_a, foo_b]"]
  by (simp add: foo_a_def foo_b_def)

text \<open>
  C3, as the claim states it, fails: the sequence of \<open>foo_a\<close> and \<open>foo_b\<close>, two
  different class interfaces named \<open>Foo\<close>, is accepted, and the registry holds
  \<open>foo_b\<close> alone.
\<close>

theorem init_duplicate_counterexample:
  "init (Sequence [foo_a, foo_b]) \<noteq> Inl DuplicateClassError \<and>
   init (Sequence [foo_a, foo_b]) = Inr \<lparr>classes = [(''Foo'', foo_b)]\<rparr> \<and> foo_a \<noteq> foo_b"
  by (simp add: init_def comprehension_def setitem_def foo_a_def foo_b_def)

section \<open>The registry invariant\<close>

lemma deserialize_loop_keyed:
  assumes "deserialize_loop dup nm con getter js xs = Inr ys"
    and "list_all (\<lambda>(k, x). k = nm x) xs"
    and "distinct (map fst xs)"
  shows "list_all (\<lambda>(k, x). k = nm x) ys \<and> distinct (map fst ys)"
  using assms
  by (induction js arbitrary: xs)
     (auto split: sum.splits if_splits simp: setitem_def update_fresh)

lemma deserialize_to_dict_keyed:
  assumes "deserialize_to_dict dup nm con getter n = Inr ys"
  shows "list_all (\<lambda>(k, x). k = nm x) ys \<and> distinct (map fst ys)"
  using deserialize_loop_keyed [of dup nm con getter "[0..<n]" "[]" ys] assms
  by (simp add: deserialize_to_dict_def)

lemma deserialize_keyed_by_name:
  assumes "deserialize buf = Inr m"
  shows "keyed_by_name m"
  using assms
  by (auto simp: deserialize_def init_def keyed_by_name_def keys_are_names
      split: sum.splits dest!: deserialize_to_dict_keyed)

lemma foo_buffer_decodes:
  "deserialize foo_buffer = Inr \<lparr>classes = [(''Foo'', foo_a)]\<rparr>"
  by (simp add: foo_buffer_def foo_a_def deserialize_def GetRootAs_def get_root_as_def
    obj_at_def ClassesLength_def vector_len_def vector_def field_def voffset_def
    deserialize_to_dict_def Classes_def CLASS_OFFSET_def get_resource_def
    ClassInterface_from_interface_def get_string_def setitem_def init_def upt_rec)

text \<open>
  C7, as the code has it. A module interface built from a plain sequence, and one
  returned by \<open>deserialize\<close>, is keyed by name: every key is the name of the class
  interface it maps to, and no two class interfaces of the mapping share a name. A module
  interface built from a keyed mapping holds that mapping as it was given.
\<close>

theorem built_registries_keyed_by_name:
  "(\<exists>m. init (Sequence cs) = Inr m \<and> keyed_by_name m) \<and>
   (deserialize buf = Inr m' \<longrightarrow> keyed_by_name m') \<and>
   init (Keyed d) = Inr \<lparr>classes = d\<rparr>"
proof -
  have "keyed_by_name \<lparr>classes = comprehension cs\<rparr>"
    using comprehension_keyed [of cs] by (simp add: keyed_by_name_def keys_are_names)
  then show ?thesis
    by (simp add: init_def deserialize_keyed_by_name)
qed

theorem built_registries_keyed_by_name_witness:
  "keyed_by_name \<lparr>classes = [(''Foo'', foo_a)]\<rparr> \<and>
   (\<exists>m. init (Sequence [foo_a, foo_b]) = Inr m \<and> keyed_by_name m)"
  using built_registries_keyed_by_name [of "[foo_a, foo_b]" foo_buffer
      "\<lparr>classes = [(''Foo'', foo_a)]\<rparr>" "[]"]
    foo_buffer_decodes
  by blast

text \<open>
  C7, as the claim states it, fails on the keyed path: the mapping \<open>mislabelled\<close>, a
  dictionary with the single key \<open>A\<close> for a class interface named \<open>B\<close>, is stored
  unchanged.
\<close>

theorem keyed_mapping_counterexample:
  "init (Keyed mislabelled) = Inr \<lparr>classes = mislabelled\<rparr> \<and>
   is_dict mislabelled \<and> \<not> keyed_by_name \<lparr>classes = mislabelled\<rparr>"
  by (simp add: init_def mislabelled_def is_dict_def keyed_by_name_def)

section \<open>Reading a buffer\<close>


lemma nth_not_in_take:
  assumes "distinct ys" and "i < length ys"
  shows "ys ! i \<notin> set (take i ys)"
proof -
  have "distinct (take i ys @ ys ! i # drop (Suc i) ys)"
    using assms id_take_nth_drop [of i ys] by simp
  then show ?thesis by simp
qed

lemma deserialize_loop_reads:
  assumes get: "\<And>j. j < length xs \<Longrightarrow> \<exists>t. getter j = Inr t \<and> con t = Inr (xs ! j)"
    and dist: "distinct (map nm xs)"
    and i: "i \<le> length xs"
  shows "deserialize_loop dup nm con getter [i..<length xs] (map (\<lambda>x. (nm x, x)) (take i xs)) =
    Inr (map (\<lambda>x. (nm x, x)) xs)"
  using i
proof (induction k \<equiv> "length xs - i" arbitrary: i)
  case 0
  then show ?case by simp
next
  case (Suc k)
  then have lt: "i < length xs" by simp
  from get [OF lt] obtain t where t: "getter i = Inr t" "con t = Inr (xs ! i)" by blast
  have "map nm xs ! i \<notin> set (take i (map nm xs))"
    using nth_not_in_take [OF dist] lt by simp
  then have fresh: "nm (xs ! i) \<notin> fst ` set (map (\<lambda>x. (nm x, x)) (take i xs))"
    using lt by (simp add: take_map image_image)
  have step: "setitem (map (\<lambda>x. (nm x, x)) (take i xs)) (nm (xs ! i)) (xs ! i) =
      map (\<lambda>x. (nm x, x)) (take (Suc i) xs)"
    using lt update_fresh [OF fresh] by (simp add: setitem_def take_Suc_conv_app_nth)
  have "k = length xs - Suc i" and "Suc i \<le> length xs"
    using Suc.hyps(2) lt by simp_all
  then have IH: "deserialize_loop dup nm con getter [Suc i..<length xs]
      (map (\<lambda>x. (nm x, x)) (take (Suc i) xs)) = Inr (map (\<lambda>x. (nm x, x)) xs)"
    using Suc.hyps(1) by blast
  from fresh have fresh': "nm (xs ! i) \<notin> set (map fst (map (\<lambda>x. (nm x, x)) (take i xs)))"
    by (simp add: image_image)
  show ?case
    using t IH lt fresh' by (simp only: upt_conv_Cons deserialize_loop.simps sum.case step if_False)
qed

lemma deserialize_to_dict_reads:
  assumes "\<And>j. j < length xs \<Longrightarrow> \<exists>t. getter j = Inr t \<and> con t = Inr (xs ! j)"
    and "distinct (map nm xs)"
  shows "deserialize_to_dict dup nm con getter (length xs) = Inr (map (\<lambda>x. (nm x, x)) xs)"
  using deserialize_loop_reads [OF assms, of 0 dup] by (simp add: deserialize_to_dict_def)

lemma from_interface_table:
  assumes "ClassInterface_from_interface t = Inr c"
  shows "\<exists>fs. obj_at (Bytes t) (Pos t) = Some (TableObj fs)"
  using assms
  by (auto simp: ClassInterface_from_interface_def get_string_def field_def
      split: option.splits obj.splits sum.splits cell.splits)

text \<open>
  C8. \<open>deserialize\<close> reads the root-offset prefix at offset 0 of the buffer and finds the
  root record through it; it reads the vector of classes from the field at slot 4 of the
  root record; it constructs one class interface per element of the vector, from the
  record the element refers to; and, the names being distinct, it returns the mapping
  from each name to its class interface, in the order of the vector.
\<close>

theorem deserialize_reads_root_slot_4:
  assumes root: "obj_at buf 0 = Some (Root n)"
    and table: "obj_at buf n = Some (TableObj fs)"
    and slot: "map_of fs 4 = Some (Ref r)"
    and vec: "obj_at buf (n + r) = Some (VectorObj rs)"
    and len: "length cs = length rs"
    and elems: "\<forall>j < length rs.
        ClassInterface_from_interface \<lparr>Bytes = buf, Pos = n + r + rs ! j\<rparr> = Inr (cs ! j)"
    and dist: "distinct (map ClassInterface.name cs)"
  shows "deserialize buf = Inr \<lparr>classes = map (\<lambda>c. (ClassInterface.name c, c)) cs\<rparr>"
proof -
  let ?root = "\<lparr>Bytes = buf, Pos = n\<rparr>"
  have r: "GetRootAs buf 0 = Inr ?root"
    using root table by (simp add: GetRootAs_def get_root_as_def)
  have v: "vector ?root 4 = Some (n + r, rs)"
    using table slot vec by (simp add: vector_def field_def)
  have l: "ClassesLength ?root = Inr (length cs)"
    using v len by (simp add: ClassesLength_def vector_len_def voffset_def)
  have g: "\<exists>t. Classes ?root j = Inr t \<and> ClassInterface_from_interface t = Inr (cs ! j)"
    if "j < length cs" for j
  proof -
    from that len elems
    have c: "ClassInterface_from_interface \<lparr>Bytes = buf, Pos = n + r + rs ! j\<rparr> = Inr (cs ! j)"
      by simp
    from from_interface_table [OF c] obtain gs where
      "obj_at buf (n + r + rs ! j) = Some (TableObj gs)" by auto
    then have "Classes ?root j = Inr \<lparr>Bytes = buf, Pos = n + r + rs ! j\<rparr>"
      using v that len by (simp add: Classes_def CLASS_OFFSET_def get_resource_def)
    with c show ?thesis by simp
  qed
  have "deserialize_to_dict DuplicateClassError ClassInterface.name
          ClassInterface_from_interface (Classes ?root) (length cs) =
        Inr (map (\<lambda>c. (ClassInterface.name c, c)) cs)"
    using g dist by (rule deserialize_to_dict_reads)
  then show ?thesis
    using r l by (simp add: deserialize_def init_def)
qed

lemma foo_record_decodes:
  "ClassInterface_from_interface \<lparr>Bytes = foo_buffer, Pos = Suc (Suc (Suc 0))\<rparr> = Inr foo_a"
  by (simp add: foo_buffer_def foo_a_def ClassInterface_from_interface_def get_string_def
      field_def obj_at_def voffset_def vector_len_def vector_def deserialize_to_dict_def)

theorem deserialize_reads_root_slot_4_witness:
  "obj_at foo_buffer 0 = Some (Root 1) \<and>
   obj_at foo_buffer 1 = Some (TableObj [(4, Ref 1)]) \<and>
   obj_at foo_buffer 2 = Some (VectorObj [1]) \<and>
   deserialize foo_buffer = Inr \<lparr>classes = [(''Foo'', foo_a)]\<rparr>"
proof -
  have root: "obj_at foo_buffer 0 = Some (Root 1)"
    and table: "obj_at foo_buffer 1 = Some (TableObj [(4, Ref 1)])"
    and vec: "obj_at foo_buffer (1 + 1) = Some (VectorObj [1])"
    by (simp_all add: foo_buffer_def obj_at_def)
  have slot: "map_of [(4, Ref 1)] (4 :: nat) = Some (Ref 1 :: nat cell)"
    by simp
  have elems: "\<forall>j < length [1 :: nat].
      ClassInterface_from_interface \<lparr>Bytes = foo_buffer, Pos = 1 + 1 + [1] ! j\<rparr> =
        Inr ([foo_a] ! j)"
    using foo_record_decodes by simp
  have "deserialize foo_buffer =
      Inr \<lparr>classes = map (\<lambda>c. (ClassInterface.name c, c)) [foo_a]\<rparr>"
    using root table slot vec _ elems
    by (rule deserialize_reads_root_slot_4) simp_all
  then have "deserialize foo_buffer = Inr \<lparr>classes = [(''Foo'', foo_a)]\<rparr>"
    by (simp add: foo_a_def)
  with root table vec show ?thesis by (simp add: numeral_2_eq_2)
qed

section \<open>Writing\<close>













section \<open>Reading what was written\<close>




















end
